theory Spec2Isabelle
  imports Main
begin

section \<open>The conference timer component\<close>

text \<open>
  A shallow embedding of \<^verbatim>\<open>react/features/conference/components/ConferenceTimer.js\<close>.
  The component instance (its props, its React state and its two interval handles) and
  the part of the host it talks to (the table of repeating timers behind
  \<^verbatim>\<open>setInterval\<close>/\<^verbatim>\<open>clearInterval\<close>, and the redux actions handed to
  \<^verbatim>\<open>dispatch\<close>) are one record that every method takes and returns.  The wall clock
  (\<^verbatim>\<open>new Date().getTime()\<close>) is sampled once per method call or tick and is an
  argument \<open>now\<close>.  The duration formatter \<^verbatim>\<open>getLocalizedDurationFormatter\<close> lives in
  another module; every method takes it as the argument \<open>fmt\<close>.
\<close>

subsection \<open>Data\<close>

text \<open>The props: two timestamps of Flow type \<^verbatim>\<open>?number\<close>.\<close>

record Props =
  startTimestamp :: "int option"
  endTimestamp :: "int option"

text \<open>The two values \<^verbatim>\<open>textStyle\<close> takes: \<^verbatim>\<open>{}\<close> and \<^verbatim>\<open>{ 'color': 'red' }\<close>.\<close>

datatype Style = EmptyStyle | ColorRed

text \<open>The redux actions the component dispatches.\<close>

datatype TimeoutType = SHORT | MEDIUM | LONG | STICKY

datatype Action =
    ShowNotification string string string TimeoutType
  | EndConference

text \<open>
  \<^verbatim>\<open>showNotification({ titleArguments: { period: '30', periodType: 'seconds' },
  titleKey: 'notify.countdownNotice' }, NOTIFICATION_TIMEOUT_TYPE.MEDIUM)\<close>:
  the fields are the title key, the period and the period type.
\<close>

definition countdownNotice :: Action where
  "countdownNotice = ShowNotification ''notify.countdownNotice'' ''30'' ''seconds'' MEDIUM"

text \<open>The two arrow functions given to \<^verbatim>\<open>setInterval\<close>.\<close>

datatype Callback = ElapsedTick | CountdownTick

text \<open>
  The instance and its host.  \<open>timers\<close> is the host's table of intervals: one entry per
  \<^verbatim>\<open>setInterval\<close> call, in the order of the calls, with the id it returned, the callback
  and whether the interval is still scheduled.
\<close>

record Timer =
  props :: Props
  timerValue :: string
  textStyle :: Style
  interval :: "nat option"
  countdownInterval :: "nat option"
  timers :: "(nat \<times> Callback \<times> bool) list"
  dispatched :: "Action list"

subsection \<open>JavaScript and host primitives\<close>

text \<open>
  JavaScript truthiness of a \<^verbatim>\<open>?number\<close>: \<^verbatim>\<open>undefined\<close>, \<^verbatim>\<open>null\<close> and \<open>0\<close> are
  falsy, every other number is truthy.
\<close>

fun truthy :: "'a::zero option \<Rightarrow> bool" where
  "truthy None = False"
| "truthy (Some x) = (x \<noteq> 0)"

text \<open>\<^verbatim>\<open>setInterval\<close> returns a fresh positive id and schedules the callback.\<close>

definition setInterval :: "Callback \<Rightarrow> Timer \<Rightarrow> nat \<times> Timer" where
  "setInterval cb w =
     (let h = Suc (length (timers w))
      in (h, w\<lparr>timers := timers w @ [(h, cb, True)]\<rparr>))"

text \<open>\<^verbatim>\<open>clearInterval\<close> cancels the interval of that id; an unknown or cancelled id is ignored.\<close>

definition clearInterval :: "nat \<Rightarrow> Timer \<Rightarrow> Timer" where
  "clearInterval h w =
     w\<lparr>timers := map (\<lambda>(i, cb, a). (i, cb, a \<and> i \<noteq> h)) (timers w)\<rparr>"

text \<open>The intervals that are scheduled now, and the callback an id fires.\<close>

definition active :: "Timer \<Rightarrow> (nat \<times> Callback) list" where
  "active w = map (\<lambda>(i, cb, a). (i, cb)) (filter (\<lambda>(i, cb, a). a) (timers w))"

definition scheduled :: "Timer \<Rightarrow> nat \<Rightarrow> Callback option" where
  "scheduled w h = map_of (active w) h"

definition dispatch :: "Action \<Rightarrow> Timer \<Rightarrow> Timer" where
  "dispatch a w = w\<lparr>dispatched := dispatched w @ [a]\<rparr>"

subsection \<open>The methods\<close>

text \<open>The constructor: \<^verbatim>\<open>timerValue: getLocalizedDurationFormatter(0), textStyle: {}\<close>.\<close>

definition constructor :: "(int \<Rightarrow> string) \<Rightarrow> Props \<Rightarrow> Timer" where
  "constructor fmt p =
     \<lparr>props = p, timerValue = fmt 0, textStyle = EmptyStyle,
      interval = None, countdownInterval = None, timers = [], dispatched = []\<rparr>"

text \<open>
  \<^verbatim>\<open>render\<close>: \<^verbatim>\<open>null\<close> when the start timestamp is falsy, else the arguments given to
  \<^verbatim>\<open>renderConferenceTimer\<close>.
\<close>

definition render :: "Timer \<Rightarrow> (string \<times> Style) option" where
  "render w =
     (if \<not> truthy (startTimestamp (props w)) then None
      else Some (timerValue w, textStyle w))"

text \<open>
  \<^verbatim>\<open>_setStateFromUTC(refValueUTC, currentValueUTC)\<close>.  \<^verbatim>\<open>setState\<close> is applied at once:
  the callers that read \<^verbatim>\<open>this.state\<close> afterwards are interval callbacks, which run
  outside React's batching.
\<close>

fun setStateFromUTC ::
  "(int \<Rightarrow> string) \<Rightarrow> int option \<Rightarrow> int option \<Rightarrow> Timer \<Rightarrow> Timer" where
  "setStateFromUTC fmt (Some refValueUTC) (Some currentValueUTC) w =
     (if \<not> truthy (Some refValueUTC) \<or> \<not> truthy (Some currentValueUTC) then w
      else if currentValueUTC < refValueUTC then w
      else w\<lparr>timerValue := fmt (currentValueUTC - refValueUTC)\<rparr>)"
| "setStateFromUTC fmt None currentValueUTC w = w"
| "setStateFromUTC fmt refValueUTC None w = w"

text \<open>The callback of the interval set in \<^verbatim>\<open>_startTimer\<close>.\<close>

definition elapsedTick :: "(int \<Rightarrow> string) \<Rightarrow> int \<Rightarrow> Timer \<Rightarrow> Timer" where
  "elapsedTick fmt now w = setStateFromUTC fmt (startTimestamp (props w)) (Some now) w"

definition startTimer :: "(int \<Rightarrow> string) \<Rightarrow> int \<Rightarrow> Timer \<Rightarrow> Timer" where
  "startTimer fmt now w =
     (if \<not> truthy (interval w) then
        (let w1 = setStateFromUTC fmt (startTimestamp (props w)) (Some now) w;
             (h, w2) = setInterval ElapsedTick w1
         in w2\<lparr>interval := Some h\<rparr>)
      else w)"

definition stopTimer :: "Timer \<Rightarrow> Timer" where
  "stopTimer w =
     (if truthy (interval w) then clearInterval (the (interval w)) w else w)"

definition stopCountdownTimer :: "(int \<Rightarrow> string) \<Rightarrow> Timer \<Rightarrow> Timer" where
  "stopCountdownTimer fmt w =
     (let w1 = (if truthy (countdownInterval w)
                then clearInterval (the (countdownInterval w)) w else w)
      in w1\<lparr>timerValue := fmt 0\<rparr>)"

text \<open>The callback of the interval set in \<^verbatim>\<open>_startCountdown\<close>.\<close>

definition countdownTick :: "(int \<Rightarrow> string) \<Rightarrow> int \<Rightarrow> Timer \<Rightarrow> Timer" where
  "countdownTick fmt now w =
     (let w1 = setStateFromUTC fmt (Some now) (endTimestamp (props w)) w;
          w2 = (if timerValue w1 = ''00:30''
                then dispatch countdownNotice (w1\<lparr>textStyle := ColorRed\<rparr>)
                else w1)
      in if timerValue w2 = ''00:01''
         then stopCountdownTimer fmt (dispatch EndConference w2)
         else w2)"

definition startCountdown :: "(int \<Rightarrow> string) \<Rightarrow> int \<Rightarrow> Timer \<Rightarrow> Timer" where
  "startCountdown fmt now w =
     (if \<not> truthy (countdownInterval w) then
        (let w1 = setStateFromUTC fmt (Some now) (endTimestamp (props w)) w;
             (h, w2) = setInterval CountdownTick w1
         in w2\<lparr>countdownInterval := Some h\<rparr>)
      else w)"

definition componentDidMount :: "(int \<Rightarrow> string) \<Rightarrow> int \<Rightarrow> Timer \<Rightarrow> Timer" where
  "componentDidMount fmt now w = startTimer fmt now w"

definition componentDidUpdate ::
  "(int \<Rightarrow> string) \<Rightarrow> Props \<Rightarrow> int \<Rightarrow> Timer \<Rightarrow> Timer" where
  "componentDidUpdate fmt prevProps now w =
     (if truthy (endTimestamp (props w))
         \<and> endTimestamp prevProps \<noteq> endTimestamp (props w)
      then startCountdown fmt now (stopTimer w)
      else w)"

definition componentWillUnmount :: "Timer \<Rightarrow> Timer" where
  "componentWillUnmount w = stopTimer w"

subsection \<open>The life of a mounted instance\<close>

text \<open>
  Between mount and unmount two things happen to the instance: the store hands it new
  props (React stores them and calls \<^verbatim>\<open>componentDidUpdate\<close> with the previous ones), and
  the host fires the callback of a scheduled interval.  A cancelled interval never fires:
  \<^verbatim>\<open>clearInterval\<close> takes effect at once and callbacks run one at a time.  The call of
  \<^verbatim>\<open>componentDidUpdate\<close> that follows a \<^verbatim>\<open>setState\<close> has equal previous and current
  props and does nothing, so it is not an event of its own.  \<^verbatim>\<open>componentWillUnmount\<close>
  ends the life: it is applied to the state a run has reached.
\<close>

datatype Event = PropsChanged Props int | Tick nat int

fun step :: "(int \<Rightarrow> string) \<Rightarrow> Event \<Rightarrow> Timer \<Rightarrow> Timer" where
  "step fmt (PropsChanged p now) w = componentDidUpdate fmt (props w) now (w\<lparr>props := p\<rparr>)"
| "step fmt (Tick h now) w =
     (case scheduled w h of
        None \<Rightarrow> w
      | Some ElapsedTick \<Rightarrow> elapsedTick fmt now w
      | Some CountdownTick \<Rightarrow> countdownTick fmt now w)"

fun run :: "(int \<Rightarrow> string) \<Rightarrow> Event list \<Rightarrow> Timer \<Rightarrow> Timer" where
  "run fmt [] w = w"
| "run fmt (e # es) w = run fmt es (step fmt e w)"

text \<open>An instance built with props \<open>p\<close>, mounted at time \<open>now\<close>, after the events \<open>es\<close>.\<close>

definition session :: "(int \<Rightarrow> string) \<Rightarrow> Props \<Rightarrow> int \<Rightarrow> Event list \<Rightarrow> Timer" where
  "session fmt p now es = run fmt es (componentDidMount fmt now (constructor fmt p))"

subsection \<open>A duration formatter\<close>

text \<open>
  \<^verbatim>\<open>getLocalizedDurationFormatter\<close> is defined in \<^verbatim>\<open>base/i18n\<close>, outside the file.
  The methods above take the formatter as an argument, and every general theorem below
  holds for an arbitrary one.  The formatter defined here is used only to run the methods
  on concrete inputs.
\<close>

text \<open>A natural number in decimal digits, and padded with a zero to two digits.\<close>

function decimal :: "nat \<Rightarrow> string" where
  "decimal n = (if n < 10 then [''0123456789'' ! n]
                else decimal (n div 10) @ [''0123456789'' ! (n mod 10)])"
  by pat_completeness auto
termination
  by (relation "measure id") auto

definition pad2 :: "nat \<Rightarrow> string" where
  "pad2 n = (if n < 10 then CHR ''0'' # decimal n else decimal n)"

text \<open>
  Modelled from the spec: the formatter \<^verbatim>\<open>getLocalizedDurationFormatter\<close>, whose code is
  not in the file.  The specification gives it as a pure function from milliseconds to a
  string \<^verbatim>\<open>MM:SS\<close> or \<^verbatim>\<open>HH:MM:SS\<close>, with 65 seconds shown as \<^verbatim>\<open>01:05\<close>, 30 seconds
  as \<^verbatim>\<open>00:30\<close>, one second as \<^verbatim>\<open>00:01\<close> and zero as \<^verbatim>\<open>00:00\<close>.
\<close>

definition formatDuration :: "int \<Rightarrow> string" where
  "formatDuration ms =
     (let s = nat (ms div 1000); h = s div 3600; m = s div 60 mod 60; sec = s mod 60
      in if h = 0 then pad2 m @ '':'' @ pad2 sec
         else pad2 h @ '':'' @ pad2 m @ '':'' @ pad2 sec)"

subsection \<open>Observing a run\<close>

text \<open>
  The string a countdown tick compares with \<^verbatim>\<open>'00:30'\<close> and \<^verbatim>\<open>'00:01'\<close>:
  \<^verbatim>\<open>this.state.timerValue\<close> after the tick's call of \<^verbatim>\<open>_setStateFromUTC\<close>.
\<close>

definition shownAt :: "(int \<Rightarrow> string) \<Rightarrow> int \<Rightarrow> Timer \<Rightarrow> string" where
  "shownAt fmt now w =
     timerValue (setStateFromUTC fmt (Some now) (endTimestamp (props w)) w)"

text \<open>Whether an event is a tick of the scheduled countdown loop that compares the string \<open>s\<close>.\<close>

fun tickShows :: "(int \<Rightarrow> string) \<Rightarrow> string \<Rightarrow> Event \<Rightarrow> Timer \<Rightarrow> bool" where
  "tickShows fmt s (Tick h now) w =
     (scheduled w h = Some CountdownTick \<and> shownAt fmt now w = s)"
| "tickShows fmt s (PropsChanged p now) w = False"

text \<open>The number of such ticks in a run.\<close>

fun countShown :: "(int \<Rightarrow> string) \<Rightarrow> string \<Rightarrow> Event list \<Rightarrow> Timer \<Rightarrow> nat" where
  "countShown fmt s [] w = 0"
| "countShown fmt s (e # es) w =
     (if tickShows fmt s e w then 1 else 0) + countShown fmt s es (step fmt e w)"

text \<open>
  The three shapes of a mounted instance: the elapsed loop runs; the elapsed loop is
  cancelled and the countdown loop runs (\<open>countdownPhase True\<close>); both are cancelled
  (\<open>countdownPhase False\<close>).
\<close>

definition elapsedPhase :: "Timer \<Rightarrow> bool" where
  "elapsedPhase w =
     (interval w = Some 1 \<and> countdownInterval w = None
      \<and> timers w = [(1, ElapsedTick, True)])"

definition countdownPhase :: "bool \<Rightarrow> Timer \<Rightarrow> bool" where
  "countdownPhase a w =
     (interval w = Some 1 \<and> countdownInterval w = Some 2
      \<and> timers w = [(1, ElapsedTick, False), (2, CountdownTick, a)])"

definition mounted :: "Timer \<Rightarrow> bool" where
  "mounted w = (elapsedPhase w \<or> countdownPhase True w \<or> countdownPhase False w)"

section \<open>Properties\<close>

subsection \<open>The update step\<close>

lemma setStateFromUTC_eq:
  "setStateFromUTC fmt r c w =
     (if truthy r \<and> truthy c \<and> the r \<le> the c
      then w\<lparr>timerValue := fmt (the c - the r)\<rparr> else w)"
  by (cases r; cases c) auto

lemma setStateFromUTC_fields [simp]:
  "props (setStateFromUTC fmt r c w) = props w"
  "textStyle (setStateFromUTC fmt r c w) = textStyle w"
  "interval (setStateFromUTC fmt r c w) = interval w"
  "countdownInterval (setStateFromUTC fmt r c w) = countdownInterval w"
  "timers (setStateFromUTC fmt r c w) = timers w"
  "dispatched (setStateFromUTC fmt r c w) = dispatched w"
  by (simp_all add: setStateFromUTC_eq)

lemma setStateFromUTC_phase [simp]:
  "elapsedPhase (setStateFromUTC fmt r c w) = elapsedPhase w"
  "countdownPhase a (setStateFromUTC fmt r c w) = countdownPhase a w"
  by (simp_all add: elapsedPhase_def countdownPhase_def)

lemma props_phase [simp]:
  "elapsedPhase (w\<lparr>props := q\<rparr>) = elapsedPhase w"
  "countdownPhase a (w\<lparr>props := q\<rparr>) = countdownPhase a w"
  by (simp_all add: elapsedPhase_def countdownPhase_def)

lemma scheduled_fields [simp]:
  "scheduled (setStateFromUTC fmt r c w) = scheduled w"
  "scheduled (w\<lparr>props := q\<rparr>) = scheduled w"
  by (simp_all add: scheduled_def active_def fun_eq_iff)

subsection \<open>The timer table in each phase\<close>

lemma active_elapsedPhase: "elapsedPhase w \<Longrightarrow> active w = [(1, ElapsedTick)]"
  by (simp add: elapsedPhase_def active_def)

lemma active_countdownPhase:
  "countdownPhase a w \<Longrightarrow> active w = (if a then [(2, CountdownTick)] else [])"
  by (simp add: countdownPhase_def active_def)

lemma scheduled_elapsedPhase:
  "elapsedPhase w \<Longrightarrow> scheduled w h = (if h = 1 then Some ElapsedTick else None)"
  by (simp add: scheduled_def active_elapsedPhase)

lemma scheduled_countdownPhase:
  "countdownPhase a w \<Longrightarrow> scheduled w h = (if a \<and> h = 2 then Some CountdownTick else None)"
  by (simp add: scheduled_def active_countdownPhase)

lemma stopTimer_elapsedPhase:
  "elapsedPhase w \<Longrightarrow> stopTimer w = w\<lparr>timers := [(1, ElapsedTick, False)]\<rparr>"
  by (simp add: elapsedPhase_def stopTimer_def clearInterval_def)

lemma stopTimer_countdownPhase: "countdownPhase a w \<Longrightarrow> stopTimer w = w"
  by (cases w) (simp add: countdownPhase_def stopTimer_def clearInterval_def)

lemma startCountdown_elapsed_cancelled:
  "interval w = Some 1 \<Longrightarrow> countdownInterval w = None \<Longrightarrow> timers w = [(1, ElapsedTick, False)] \<Longrightarrow>
   startCountdown fmt now w =
     (setStateFromUTC fmt (Some now) (endTimestamp (props w)) w)
       \<lparr>countdownInterval := Some 2,
        timers := [(1, ElapsedTick, False), (2, CountdownTick, True)]\<rparr>"
  by (simp add: startCountdown_def setInterval_def Let_def setStateFromUTC_eq)

lemma startCountdown_countdownPhase: "countdownPhase a w \<Longrightarrow> startCountdown fmt now w = w"
  by (simp add: countdownPhase_def startCountdown_def)

lemma componentDidUpdate_countdownPhase:
  "countdownPhase a w \<Longrightarrow> componentDidUpdate fmt q now w = w"
  by (simp add: componentDidUpdate_def stopTimer_countdownPhase startCountdown_countdownPhase)

lemma componentDidUpdate_elapsedPhase:
  "elapsedPhase w \<Longrightarrow>
   componentDidUpdate fmt q now w =
     (if truthy (endTimestamp (props w)) \<and> endTimestamp q \<noteq> endTimestamp (props w)
      then (setStateFromUTC fmt (Some now) (endTimestamp (props w)) w)
             \<lparr>countdownInterval := Some 2,
              timers := [(1, ElapsedTick, False), (2, CountdownTick, True)]\<rparr>
      else w)"
proof -
  assume e: "elapsedPhase w"
  let ?v = "w\<lparr>timers := [(1, ElapsedTick, False)]\<rparr>"
  have "startCountdown fmt now ?v =
     (setStateFromUTC fmt (Some now) (endTimestamp (props ?v)) ?v)
       \<lparr>countdownInterval := Some 2,
        timers := [(1, ElapsedTick, False), (2, CountdownTick, True)]\<rparr>"
    using e by (intro startCountdown_elapsed_cancelled) (simp_all add: elapsedPhase_def)
  then show ?thesis
    by (simp add: componentDidUpdate_def stopTimer_elapsedPhase[OF e] setStateFromUTC_eq)
qed

text \<open>What a tick of the countdown loop does, by the string it compares.\<close>

lemma countdownTick_eq:
  "countdownPhase True w \<Longrightarrow>
   countdownTick fmt now w =
     (let u = setStateFromUTC fmt (Some now) (endTimestamp (props w)) w
      in if shownAt fmt now w = ''00:30''
         then u\<lparr>textStyle := ColorRed, dispatched := dispatched w @ [countdownNotice]\<rparr>
         else if shownAt fmt now w = ''00:01''
         then u\<lparr>timerValue := fmt 0,
                timers := [(1, ElapsedTick, False), (2, CountdownTick, False)],
                dispatched := dispatched w @ [EndConference]\<rparr>
         else u)"
  by (simp add: countdownTick_def shownAt_def Let_def dispatch_def stopCountdownTimer_def
      clearInterval_def countdownPhase_def)

subsection \<open>Steps in each phase\<close>

lemma step_elapsedPhase:
  "elapsedPhase w \<Longrightarrow>
   step fmt e w =
     (case e of
        Tick h now \<Rightarrow> if h = 1 then elapsedTick fmt now w else w
      | PropsChanged q now \<Rightarrow>
          if truthy (endTimestamp q) \<and> endTimestamp (props w) \<noteq> endTimestamp q
          then (setStateFromUTC fmt (Some now) (endTimestamp q) (w\<lparr>props := q\<rparr>))
                 \<lparr>countdownInterval := Some 2,
                  timers := [(1, ElapsedTick, False), (2, CountdownTick, True)]\<rparr>
          else w\<lparr>props := q\<rparr>)"
  by (cases e) (simp_all add: scheduled_elapsedPhase componentDidUpdate_elapsedPhase)

lemma step_countdownPhase:
  "countdownPhase a w \<Longrightarrow>
   step fmt e w =
     (case e of
        Tick h now \<Rightarrow> if a \<and> h = 2 then countdownTick fmt now w else w
      | PropsChanged q now \<Rightarrow> w\<lparr>props := q\<rparr>)"
  by (cases e) (simp_all add: scheduled_countdownPhase componentDidUpdate_countdownPhase)

declare step.simps [simp del]

lemma elapsedTick_phase [simp]:
  "elapsedPhase (elapsedTick fmt now w) = elapsedPhase w"
  by (simp add: elapsedTick_def)

lemma countdownTick_phase:
  "countdownPhase True w \<Longrightarrow>
   countdownPhase (shownAt fmt now w = ''00:30'' \<or> shownAt fmt now w \<noteq> ''00:01'')
     (countdownTick fmt now w)"
  by (simp add: countdownTick_eq Let_def) (simp add: countdownPhase_def)

lemma elapsedPhase_step:
  assumes "elapsedPhase w"
  shows "elapsedPhase (step fmt e w) \<or> countdownPhase True (step fmt e w)"
proof (cases e)
  case (Tick h now)
  with assms show ?thesis by (simp add: step_elapsedPhase)
next
  case (PropsChanged q now)
  from assms have "interval w = Some 1" "countdownInterval w = None"
    by (simp_all add: elapsedPhase_def)
  with assms PropsChanged show ?thesis
    by (simp add: step_elapsedPhase) (simp add: countdownPhase_def)
qed

lemma countdownPhase_step:
  assumes "countdownPhase a w"
  shows "countdownPhase a (step fmt e w) \<or> (a \<and> countdownPhase False (step fmt e w))"
proof (cases e)
  case (PropsChanged q now)
  with assms show ?thesis by (simp add: step_countdownPhase)
next
  case (Tick h now)
  show ?thesis
  proof (cases "a \<and> h = 2")
    case True
    with assms have c: "countdownPhase True w" by simp
    from countdownTick_phase[OF c, of fmt now] True Tick assms show ?thesis
      by (cases "shownAt fmt now w = ''00:30'' \<or> shownAt fmt now w \<noteq> ''00:01''")
         (simp_all add: step_countdownPhase)
  next
    case False
    with assms Tick show ?thesis by (auto simp: step_countdownPhase)
  qed
qed

lemma mounted_step: "mounted w \<Longrightarrow> mounted (step fmt e w)"
  unfolding mounted_def
  using elapsedPhase_step[of w fmt e] countdownPhase_step[of True w fmt e]
    countdownPhase_step[of False w fmt e]
  by blast

lemma mounted_run: "mounted w \<Longrightarrow> mounted (run fmt es w)"
  by (induction es arbitrary: w) (simp_all add: mounted_step)

lemma elapsedPhase_componentDidMount:
  "elapsedPhase (componentDidMount fmt now (constructor fmt p))"
  by (simp add: componentDidMount_def startTimer_def constructor_def setInterval_def
      elapsedPhase_def Let_def)

lemma mounted_session: "mounted (session fmt p now es)"
  unfolding session_def
  by (rule mounted_run) (simp add: mounted_def elapsedPhase_componentDidMount)

lemma run_append: "run fmt (es @ es') w = run fmt es' (run fmt es w)"
  by (induction es arbitrary: w) simp_all

text \<open>Once both loops are cancelled, only the props change.\<close>

lemma step_countdownPhase_False:
  assumes "countdownPhase False w"
  shows "countdownPhase False (step fmt e w) \<and> timerValue (step fmt e w) = timerValue w
    \<and> textStyle (step fmt e w) = textStyle w \<and> dispatched (step fmt e w) = dispatched w"
  using assms by (cases e) (simp_all add: step_countdownPhase)

lemma run_countdownPhase_False:
  "countdownPhase False w \<Longrightarrow>
   countdownPhase False (run fmt es w) \<and> timerValue (run fmt es w) = timerValue w
    \<and> textStyle (run fmt es w) = textStyle w \<and> dispatched (run fmt es w) = dispatched w"
proof (induction es arbitrary: w)
  case Nil
  then show ?case by simp
next
  case (Cons e es)
  from step_countdownPhase_False[OF Cons.prems, of fmt e] Cons.IH[of "step fmt e w"]
  show ?case by simp
qed

subsection \<open>Timestamps equal to zero\<close>

text \<open>
  C9.  The update step treats a timestamp equal to \<open>0\<close> as it treats an absent one: when
  the reference timestamp or the current timestamp is \<open>0\<close>, the call changes nothing, so
  no duration is published.
\<close>

theorem setStateFromUTC_zero_is_absent:
  "setStateFromUTC fmt (Some 0) cur w = w
   \<and> setStateFromUTC fmt ref (Some 0) w = w
   \<and> setStateFromUTC fmt (Some 0) cur w = setStateFromUTC fmt None cur w
   \<and> setStateFromUTC fmt ref (Some 0) w = setStateFromUTC fmt ref None w"
  by (simp add: setStateFromUTC_eq)

theorem setStateFromUTC_zero_is_absent_witness:
  "timerValue (setStateFromUTC formatDuration (Some 0) (Some 65000)
      (constructor formatDuration \<lparr>startTimestamp = Some 0, endTimestamp = None\<rparr>)) = ''00:00''
   \<and> timerValue (setStateFromUTC formatDuration (Some 1000) (Some 0)
      (constructor formatDuration \<lparr>startTimestamp = Some 0, endTimestamp = None\<rparr>)) = ''00:00''
   \<and> timerValue (setStateFromUTC formatDuration (Some 1000) (Some 66000)
      (constructor formatDuration \<lparr>startTimestamp = Some 0, endTimestamp = None\<rparr>)) = ''01:05''"
proof -
  let ?w = "constructor formatDuration \<lparr>startTimestamp = Some 0, endTimestamp = None\<rparr>"
  have v: "timerValue ?w = ''00:00''" by code_simp
  have n: "timerValue (setStateFromUTC formatDuration (Some 1000) (Some 66000) ?w) = ''01:05''"
    by code_simp
  from setStateFromUTC_zero_is_absent[of formatDuration "Some 65000" ?w "Some 1000"] v n
  show ?thesis by simp
qed

subsection \<open>Activation\<close>

lemma componentDidMount_eq:
  "componentDidMount fmt now (constructor fmt p) =
     (setStateFromUTC fmt (startTimestamp p) (Some now) (constructor fmt p))
       \<lparr>interval := Some 1, timers := [(1, ElapsedTick, True)]\<rparr>"
  by (simp add: componentDidMount_def startTimer_def constructor_def setInterval_def
      setStateFromUTC_eq)

text \<open>
  C5, as amended.  When the start timestamp is present and not \<open>0\<close>, the time of mounting
  is not \<open>0\<close>, and the start timestamp is not later than the time of mounting,
  \<^verbatim>\<open>componentDidMount\<close> publishes the formatted difference at once.
\<close>

theorem mount_publishes_elapsed:
  assumes "startTimestamp p = Some s" and "s \<noteq> 0" and "now \<noteq> 0" and "s \<le> now"
  shows "timerValue (componentDidMount fmt now (constructor fmt p)) = fmt (now - s)"
  using assms by (simp add: componentDidMount_eq setStateFromUTC_eq)

theorem mount_publishes_elapsed_witness:
  "timerValue (componentDidMount formatDuration 66000
      (constructor formatDuration \<lparr>startTimestamp = Some 1000, endTimestamp = None\<rparr>)) = ''01:05''"
proof -
  have f: "formatDuration (66000 - 1000) = ''01:05''" by code_simp
  from mount_publishes_elapsed[of "\<lparr>startTimestamp = Some 1000, endTimestamp = None\<rparr>"
      1000 66000 formatDuration] f
  show ?thesis by simp
qed

text \<open>
  C5 as stated fails for a start timestamp of \<open>0\<close>: it is present and not later than the
  time of mounting, and the published string stays that of the constructor.
\<close>

theorem mount_epoch_start_counterexample:
  "timerValue (componentDidMount formatDuration 65000
      (constructor formatDuration \<lparr>startTimestamp = Some 0, endTimestamp = None\<rparr>)) = ''00:00''
   \<and> formatDuration (65000 - 0) = ''01:05''"
  by code_simp

text \<open>
  C4, as amended.  Mounted with a falsy start timestamp, the component renders nothing,
  publishes nothing and dispatches nothing, and it does schedule the elapsed loop: the one
  interval of the table.  A tick of that loop changes nothing while the start timestamp
  stays falsy; once the props carry a start timestamp (and the deadline is unchanged),
  the next tick publishes the elapsed time.
\<close>

theorem mount_without_start:
  assumes "\<not> truthy (startTimestamp p)"
    and "w = componentDidMount fmt now (constructor fmt p)"
  shows "render w = None \<and> timerValue w = fmt 0 \<and> textStyle w = EmptyStyle
    \<and> dispatched w = [] \<and> active w = [(1, ElapsedTick)]
    \<and> step fmt (Tick 1 t) w = w
    \<and> (startTimestamp q = Some s \<and> s \<noteq> 0 \<and> t \<noteq> 0 \<and> s \<le> t
        \<and> endTimestamp q = endTimestamp p
        \<longrightarrow> timerValue (run fmt [PropsChanged q t0, Tick 1 t] w) = fmt (t - s))"
proof -
  have e: "elapsedPhase w"
    using assms(2) by (simp add: elapsedPhase_componentDidMount)
  have w: "w = (constructor fmt p)\<lparr>interval := Some 1, timers := [(1, ElapsedTick, True)]\<rparr>"
    using assms by (simp add: componentDidMount_eq setStateFromUTC_eq)
  have p: "props w = p" "timerValue w = fmt 0" "textStyle w = EmptyStyle" "dispatched w = []"
    by (simp_all add: w constructor_def)
  have r: "render w = None" using assms(1) p by (simp add: render_def)
  have a: "active w = [(1, ElapsedTick)]" by (rule active_elapsedPhase[OF e])
  have t: "step fmt (Tick 1 t) w = w"
    using assms(1) p by (simp add: step_elapsedPhase[OF e] elapsedTick_def setStateFromUTC_eq)
  have l: "timerValue (run fmt [PropsChanged q t0, Tick 1 t] w) = fmt (t - s)"
    if "startTimestamp q = Some s" "s \<noteq> 0" "t \<noteq> 0" "s \<le> t" "endTimestamp q = endTimestamp p"
  proof -
    have 1: "step fmt (PropsChanged q t0) w = w\<lparr>props := q\<rparr>"
      using that p by (simp add: step_elapsedPhase[OF e])
    have 2: "elapsedPhase (w\<lparr>props := q\<rparr>)" using e by simp
    show ?thesis
      using that by (simp add: 1 step_elapsedPhase[OF 2] elapsedTick_def setStateFromUTC_eq)
  qed
  from r p a t l show ?thesis by blast
qed

theorem mount_without_start_witness:
  "render (componentDidMount formatDuration 5000
      (constructor formatDuration \<lparr>startTimestamp = None, endTimestamp = None\<rparr>)) = None
   \<and> timerValue (componentDidMount formatDuration 5000
      (constructor formatDuration \<lparr>startTimestamp = None, endTimestamp = None\<rparr>)) = ''00:00''
   \<and> timerValue (run formatDuration
        [PropsChanged \<lparr>startTimestamp = Some 1000, endTimestamp = None\<rparr> 6000, Tick 1 66000]
        (componentDidMount formatDuration 5000
          (constructor formatDuration \<lparr>startTimestamp = None, endTimestamp = None\<rparr>))) = ''01:05''"
proof -
  have f: "formatDuration 0 = ''00:00''" "formatDuration (66000 - 1000) = ''01:05''"
    by code_simp+
  from mount_without_start[of "\<lparr>startTimestamp = None, endTimestamp = None\<rparr>" _
      formatDuration 5000 66000 "\<lparr>startTimestamp = Some 1000, endTimestamp = None\<rparr>" 1000 6000,
      OF _ refl] f
  show ?thesis by simp
qed

text \<open>
  C4 as stated fails: with no start timestamp the mount creates a repeating timer.
\<close>

theorem mount_without_start_counterexample:
  "active (componentDidMount formatDuration 5000
      (constructor formatDuration \<lparr>startTimestamp = None, endTimestamp = None\<rparr>))
     = [(1, ElapsedTick)]"
  by code_simp

subsection \<open>Handles and the timer table\<close>

lemma stopCountdownTimer_fields [simp]:
  "interval (stopCountdownTimer fmt w) = interval w"
  "countdownInterval (stopCountdownTimer fmt w) = countdownInterval w"
  by (simp_all add: stopCountdownTimer_def clearInterval_def)

lemma stopTimer_fields [simp]:
  "interval (stopTimer w) = interval w"
  "countdownInterval (stopTimer w) = countdownInterval w"
  by (simp_all add: stopTimer_def clearInterval_def)

lemma stopCountdownTimer_countdownPhase:
  "countdownPhase a w \<Longrightarrow>
   stopCountdownTimer fmt w =
     w\<lparr>timerValue := fmt 0, timers := [(1, ElapsedTick, False), (2, CountdownTick, False)]\<rparr>"
  by (simp add: stopCountdownTimer_def clearInterval_def countdownPhase_def)

lemma stopCountdownTimer_elapsedPhase:
  "elapsedPhase w \<Longrightarrow> stopCountdownTimer fmt w = w\<lparr>timerValue := fmt 0\<rparr>"
  by (simp add: stopCountdownTimer_def elapsedPhase_def)

lemma mounted_cases:
  assumes "mounted w"
  obtains "elapsedPhase w" | a where "countdownPhase a w"
  using assms by (auto simp: mounted_def)

lemma scheduled_stopTimer:
  assumes "mounted w"
  shows "scheduled (stopTimer w) h \<noteq> Some ElapsedTick"
  using assms
proof (cases rule: mounted_cases)
  case 1
  then show ?thesis by (simp add: stopTimer_elapsedPhase scheduled_def active_def)
next
  case (2 a)
  then show ?thesis by (simp add: stopTimer_countdownPhase scheduled_countdownPhase)
qed

lemma scheduled_stopCountdownTimer:
  assumes "mounted w"
  shows "scheduled (stopCountdownTimer fmt w) h \<noteq> Some CountdownTick"
  using assms
proof (cases rule: mounted_cases)
  case 1
  then have "elapsedPhase (w\<lparr>timerValue := fmt 0\<rparr>)" by (simp add: elapsedPhase_def)
  from scheduled_elapsedPhase[OF this] 1 show ?thesis
    by (simp add: stopCountdownTimer_elapsedPhase)
next
  case (2 a)
  then show ?thesis
    by (simp add: stopCountdownTimer_countdownPhase scheduled_def active_def)
qed

lemma scheduled_mounted:
  assumes "mounted w"
  shows "(scheduled w h = Some ElapsedTick \<longrightarrow> interval w = Some h)
    \<and> (scheduled w h = Some CountdownTick \<longrightarrow> countdownInterval w = Some h)"
  using assms
proof (cases rule: mounted_cases)
  case 1
  then have "interval w = Some 1" by (simp add: elapsedPhase_def)
  with 1 show ?thesis by (simp add: scheduled_elapsedPhase)
next
  case (2 a)
  then have "countdownInterval w = Some 2" by (simp add: countdownPhase_def)
  with 2 show ?thesis by (simp add: scheduled_countdownPhase)
qed

text \<open>
  C2, as amended.  At every moment of a mounted instance, a loop that is scheduled has
  its id in the handle of its mode; each stop operation cancels the loop of its mode and
  leaves both handles as they are.
\<close>

theorem scheduled_loop_has_handle:
  assumes "w = session fmt p now es"
  shows "(scheduled w h = Some ElapsedTick \<longrightarrow> interval w = Some h)
    \<and> (scheduled w h = Some CountdownTick \<longrightarrow> countdownInterval w = Some h)
    \<and> scheduled (stopTimer w) h \<noteq> Some ElapsedTick
    \<and> scheduled (stopCountdownTimer fmt w) h \<noteq> Some CountdownTick
    \<and> interval (stopTimer w) = interval w
    \<and> countdownInterval (stopTimer w) = countdownInterval w
    \<and> interval (stopCountdownTimer fmt w) = interval w
    \<and> countdownInterval (stopCountdownTimer fmt w) = countdownInterval w"
proof -
  have m: "mounted w" using assms by (simp add: mounted_session)
  from scheduled_mounted[OF m, of h] scheduled_stopTimer[OF m, of h]
    scheduled_stopCountdownTimer[OF m, of fmt h]
  show ?thesis by simp
qed

theorem scheduled_loop_has_handle_witness:
  "scheduled (session formatDuration \<lparr>startTimestamp = Some 1000, endTimestamp = None\<rparr> 2000 []) 1
     = Some ElapsedTick
   \<and> interval (session formatDuration \<lparr>startTimestamp = Some 1000, endTimestamp = None\<rparr> 2000 [])
     = Some 1
   \<and> interval (stopTimer
       (session formatDuration \<lparr>startTimestamp = Some 1000, endTimestamp = None\<rparr> 2000 []))
     = Some 1"
proof -
  let ?w = "session formatDuration \<lparr>startTimestamp = Some 1000, endTimestamp = None\<rparr> 2000 []"
  have s: "scheduled ?w 1 = Some ElapsedTick" by code_simp
  from scheduled_loop_has_handle[OF refl, of formatDuration
      "\<lparr>startTimestamp = Some 1000, endTimestamp = None\<rparr>" 2000 "[]" 1] s
  show ?thesis by simp
qed

text \<open>
  C2 as stated fails: after the switch to the countdown the handle of the elapsed loop
  still holds the id \<open>1\<close> and no interval of that id is scheduled; after the countdown
  has ended the same holds of the countdown handle and the id \<open>2\<close>.
\<close>

theorem handle_outlives_loop_counterexample:
  "interval (session formatDuration \<lparr>startTimestamp = Some 1000, endTimestamp = None\<rparr> 2000
      [PropsChanged \<lparr>startTimestamp = Some 1000, endTimestamp = Some 100000\<rparr> 3000]) = Some 1
   \<and> scheduled (session formatDuration \<lparr>startTimestamp = Some 1000, endTimestamp = None\<rparr> 2000
      [PropsChanged \<lparr>startTimestamp = Some 1000, endTimestamp = Some 100000\<rparr> 3000]) 1 = None
   \<and> countdownInterval (session formatDuration \<lparr>startTimestamp = Some 1000, endTimestamp = None\<rparr> 2000
      [PropsChanged \<lparr>startTimestamp = Some 1000, endTimestamp = Some 100000\<rparr> 3000,
       Tick 2 99000]) = Some 2
   \<and> scheduled (session formatDuration \<lparr>startTimestamp = Some 1000, endTimestamp = None\<rparr> 2000
      [PropsChanged \<lparr>startTimestamp = Some 1000, endTimestamp = Some 100000\<rparr> 3000,
       Tick 2 99000]) 2 = None"
  by code_simp

subsection \<open>Each loop is scheduled once\<close>

text \<open>The entries of the timer table made for a callback, cancelled or not.\<close>

lemma timers_mounted:
  assumes "mounted w"
  shows "length (filter (\<lambda>(i, cb, a). cb = ElapsedTick) (timers w)) = 1
    \<and> length (filter (\<lambda>(i, cb, a). cb = CountdownTick) (timers w)) \<le> 1"
  using assms by (auto simp: mounted_def elapsedPhase_def countdownPhase_def)

lemma startCountdown_set: "countdownInterval w = Some (Suc n) \<Longrightarrow> startCountdown fmt now w = w"
  by (simp add: startCountdown_def)

lemma countdownInterval_mounted:
  "mounted w \<Longrightarrow> countdownInterval w \<noteq> None \<Longrightarrow> countdownInterval w = Some (Suc 1)"
  by (auto simp: mounted_def elapsedPhase_def countdownPhase_def)

lemma startTimer_set: "interval w = Some (Suc n) \<Longrightarrow> startTimer fmt now w = w"
  by (simp add: startTimer_def)

lemma interval_mounted: "mounted w \<Longrightarrow> interval w = Some (Suc 0)"
  by (auto simp: mounted_def elapsedPhase_def countdownPhase_def)

lemma not_scheduled_after_end:
  assumes "countdownPhase False w"
  shows "scheduled (run fmt es w) h = None"
proof -
  from run_countdownPhase_False[OF assms, of fmt es]
  have "countdownPhase False (run fmt es w)" by simp
  from scheduled_countdownPhase[OF this] show ?thesis by simp
qed

lemma countdown_ended:
  assumes "mounted w" and "countdownInterval w = Some c" and "scheduled w c = None"
  shows "countdownPhase False w"
  using assms(1)
proof (cases rule: mounted_cases)
  case 1
  with assms(2) show ?thesis by (simp add: elapsedPhase_def)
next
  case (2 a)
  then have "countdownInterval w = Some 2" by (simp add: countdownPhase_def)
  with assms(2,3) 2 show ?thesis by (cases a) (simp_all add: scheduled_countdownPhase)
qed

text \<open>
  C10.  In the life of a mounted instance the timer table never holds more than one
  entry per callback, cancelled or not.  The stop operations leave the handles set, so
  a start operation called again changes nothing, before or after the stop operation of
  its mode.  Once the countdown handle is set and its loop is no longer scheduled, no
  later event schedules a countdown loop; a change of deadline leaves the timer table
  as it is.
\<close>

theorem loops_scheduled_once:
  assumes "w = session fmt p t0 es"
  shows "length (filter (\<lambda>(i, cb, a). cb = ElapsedTick) (timers w)) \<le> 1
    \<and> length (filter (\<lambda>(i, cb, a). cb = CountdownTick) (timers w)) \<le> 1
    \<and> startTimer fmt now w = w
    \<and> startTimer fmt now (stopTimer w) = stopTimer w
    \<and> (countdownInterval w \<noteq> None \<longrightarrow>
          startCountdown fmt now w = w
          \<and> startCountdown fmt now (stopCountdownTimer fmt w) = stopCountdownTimer fmt w)
    \<and> (countdownInterval w = Some c \<and> scheduled w c = None \<longrightarrow>
          scheduled (run fmt es' w) h \<noteq> Some CountdownTick
          \<and> timers (step fmt (PropsChanged q now) w) = timers w)"
proof -
  have m: "mounted w" using assms by (simp add: mounted_session)
  have 1: "startTimer fmt now w = w"
    by (rule startTimer_set) (rule interval_mounted[OF m])
  have 2: "startTimer fmt now (stopTimer w) = stopTimer w"
    by (rule startTimer_set) (simp add: interval_mounted[OF m])
  have 3: "startCountdown fmt now w = w
      \<and> startCountdown fmt now (stopCountdownTimer fmt w) = stopCountdownTimer fmt w"
    if "countdownInterval w \<noteq> None"
  proof
    show "startCountdown fmt now w = w"
      by (rule startCountdown_set) (rule countdownInterval_mounted[OF m that])
    show "startCountdown fmt now (stopCountdownTimer fmt w) = stopCountdownTimer fmt w"
      by (rule startCountdown_set) (simp add: countdownInterval_mounted[OF m that])
  qed
  have 4: "scheduled (run fmt es' w) h \<noteq> Some CountdownTick
      \<and> timers (step fmt (PropsChanged q now) w) = timers w"
    if "countdownInterval w = Some c" "scheduled w c = None"
  proof -
    from countdown_ended[OF m that] have c: "countdownPhase False w" .
    from not_scheduled_after_end[OF c, of fmt es' h] c show ?thesis
      by (simp add: step_countdownPhase)
  qed
  from timers_mounted[OF m] 1 2 3 4 show ?thesis by simp
qed

theorem loops_scheduled_once_witness:
  "countdownInterval (session formatDuration \<lparr>startTimestamp = Some 1000, endTimestamp = None\<rparr> 2000
      [PropsChanged \<lparr>startTimestamp = Some 1000, endTimestamp = Some 100000\<rparr> 3000,
       Tick 2 99000]) = Some 2
   \<and> dispatched (session formatDuration \<lparr>startTimestamp = Some 1000, endTimestamp = None\<rparr> 2000
      [PropsChanged \<lparr>startTimestamp = Some 1000, endTimestamp = Some 100000\<rparr> 3000,
       Tick 2 99000]) = [EndConference]
   \<and> scheduled (run formatDuration
        [PropsChanged \<lparr>startTimestamp = Some 1000, endTimestamp = Some 400000\<rparr> 200000]
        (session formatDuration \<lparr>startTimestamp = Some 1000, endTimestamp = None\<rparr> 2000
          [PropsChanged \<lparr>startTimestamp = Some 1000, endTimestamp = Some 100000\<rparr> 3000,
           Tick 2 99000])) 2 \<noteq> Some CountdownTick
   \<and> startCountdown formatDuration 200000
        (session formatDuration \<lparr>startTimestamp = Some 1000, endTimestamp = None\<rparr> 2000
          [PropsChanged \<lparr>startTimestamp = Some 1000, endTimestamp = Some 100000\<rparr> 3000,
           Tick 2 99000])
      = session formatDuration \<lparr>startTimestamp = Some 1000, endTimestamp = None\<rparr> 2000
          [PropsChanged \<lparr>startTimestamp = Some 1000, endTimestamp = Some 100000\<rparr> 3000,
           Tick 2 99000]"
proof -
  let ?w = "session formatDuration \<lparr>startTimestamp = Some 1000, endTimestamp = None\<rparr> 2000
      [PropsChanged \<lparr>startTimestamp = Some 1000, endTimestamp = Some 100000\<rparr> 3000,
       Tick 2 99000]"
  have c: "countdownInterval ?w = Some 2" "scheduled ?w 2 = None"
    "dispatched ?w = [EndConference]"
    by code_simp+
  from loops_scheduled_once[OF refl, of formatDuration
      "\<lparr>startTimestamp = Some 1000, endTimestamp = None\<rparr>" 2000
      "[PropsChanged \<lparr>startTimestamp = Some 1000, endTimestamp = Some 100000\<rparr> 3000,
        Tick 2 99000]"
      200000 2
      "[PropsChanged \<lparr>startTimestamp = Some 1000, endTimestamp = Some 400000\<rparr> 200000]" 2] c
  show ?thesis by simp
qed

subsection \<open>Unmounting\<close>

text \<open>
  C1.  \<^verbatim>\<open>componentWillUnmount\<close> cancels the elapsed loop and is the identity when no loop
  is scheduled or when it has run before; a countdown loop that is scheduled stays
  scheduled.
\<close>

theorem unmount_keeps_countdown:
  assumes "w = session fmt p t0 es"
  shows "(scheduled w h = Some CountdownTick \<longrightarrow>
            scheduled (componentWillUnmount w) h = Some CountdownTick)
    \<and> scheduled (componentWillUnmount w) h \<noteq> Some ElapsedTick
    \<and> (active w = [] \<longrightarrow> componentWillUnmount w = w)
    \<and> componentWillUnmount (componentWillUnmount w) = componentWillUnmount w"
proof -
  have m: "mounted w" using assms by (simp add: mounted_session)
  then show ?thesis
  proof (cases rule: mounted_cases)
    case 1
    have i: "stopTimer (w\<lparr>timers := [(1, ElapsedTick, False)]\<rparr>)
        = w\<lparr>timers := [(1, ElapsedTick, False)]\<rparr>"
      using 1 by (simp add: stopTimer_def clearInterval_def elapsedPhase_def)
    from 1 i scheduled_stopTimer[OF m, of h] show ?thesis
      by (simp add: componentWillUnmount_def stopTimer_elapsedPhase scheduled_elapsedPhase
          active_elapsedPhase)
  next
    case (2 a)
    then show ?thesis
      by (simp add: componentWillUnmount_def stopTimer_countdownPhase scheduled_countdownPhase)
  qed
qed

theorem unmount_keeps_countdown_witness:
  "scheduled (session formatDuration \<lparr>startTimestamp = Some 1000, endTimestamp = None\<rparr> 2000
      [PropsChanged \<lparr>startTimestamp = Some 1000, endTimestamp = Some 100000\<rparr> 3000]) 2
     = Some CountdownTick
   \<and> scheduled (componentWillUnmount
      (session formatDuration \<lparr>startTimestamp = Some 1000, endTimestamp = None\<rparr> 2000
        [PropsChanged \<lparr>startTimestamp = Some 1000, endTimestamp = Some 100000\<rparr> 3000])) 2
     = Some CountdownTick"
proof -
  let ?w = "session formatDuration \<lparr>startTimestamp = Some 1000, endTimestamp = None\<rparr> 2000
      [PropsChanged \<lparr>startTimestamp = Some 1000, endTimestamp = Some 100000\<rparr> 3000]"
  have s: "scheduled ?w 2 = Some CountdownTick" by code_simp
  from unmount_keeps_countdown[OF refl, of formatDuration
      "\<lparr>startTimestamp = Some 1000, endTimestamp = None\<rparr>" 2000
      "[PropsChanged \<lparr>startTimestamp = Some 1000, endTimestamp = Some 100000\<rparr> 3000]" 2] s
  show ?thesis by simp
qed

subsection \<open>A change of deadline\<close>

lemma no_elapsed_after_countdownPhase:
  assumes "countdownPhase a w"
  shows "scheduled (run fmt es w) h \<noteq> Some ElapsedTick"
  using assms
proof (induction es arbitrary: a w)
  case Nil
  then show ?case by (simp add: scheduled_countdownPhase)
next
  case (Cons e es)
  from countdownPhase_step[OF Cons.prems, of fmt e]
  obtain b where "countdownPhase b (step fmt e w)" by blast
  from Cons.IH[OF this] show ?case by simp
qed

text \<open>
  C3, as amended.  When the props of a mounted instance change to a deadline that is
  truthy (present and not \<open>0\<close>) and differs from the previous one, the elapsed loop is
  cancelled, and no later event finds an elapsed loop scheduled.  If the countdown handle
  was not set, the update step is applied to the time of the change and the new deadline
  and the countdown loop is scheduled, as the one scheduled interval.  If the countdown
  handle was set, nothing but the props changes: a scheduled countdown loop is not
  stopped, none is started, and nothing is published.
\<close>

theorem deadline_change:
  assumes "w = session fmt p t0 es"
    and "truthy (endTimestamp q)" and "endTimestamp q \<noteq> endTimestamp (props w)"
    and "w' = step fmt (PropsChanged q now) w"
  shows "scheduled (run fmt es' w') h \<noteq> Some ElapsedTick
    \<and> (countdownInterval w = None \<longrightarrow>
          active w' = [(2, CountdownTick)]
          \<and> timerValue w' = timerValue (setStateFromUTC fmt (Some now) (endTimestamp q) w)
          \<and> textStyle w' = textStyle w \<and> dispatched w' = dispatched w)
    \<and> (countdownInterval w \<noteq> None \<longrightarrow> w' = w\<lparr>props := q\<rparr>)"
proof -
  have m: "mounted w" using assms(1) by (simp add: mounted_session)
  then show ?thesis
  proof (cases rule: mounted_cases)
    case 1
    have n: "countdownInterval w = None" using 1 by (simp add: elapsedPhase_def)
    have i: "interval w = Some 1" using 1 by (simp add: elapsedPhase_def)
    have w': "w' = (setStateFromUTC fmt (Some now) (endTimestamp q) (w\<lparr>props := q\<rparr>))
        \<lparr>countdownInterval := Some 2,
         timers := [(1, ElapsedTick, False), (2, CountdownTick, True)]\<rparr>"
      using assms(2,3,4) by (simp add: step_elapsedPhase[OF 1])
    have c: "countdownPhase True w'"
      using i by (simp add: w' countdownPhase_def)
    have v: "timerValue w' = timerValue (setStateFromUTC fmt (Some now) (endTimestamp q) w)"
      by (simp add: w' setStateFromUTC_eq)
    from no_elapsed_after_countdownPhase[OF c, of fmt es' h] active_countdownPhase[OF c] n v
    show ?thesis by (simp add: w')
  next
    case (2 a)
    have n: "countdownInterval w \<noteq> None" using 2 by (simp add: countdownPhase_def)
    have w': "w' = w\<lparr>props := q\<rparr>"
      using assms(4) by (simp add: step_countdownPhase[OF 2])
    then have "countdownPhase a w'" using 2 by simp
    from no_elapsed_after_countdownPhase[OF this, of fmt es' h] n w'
    show ?thesis by auto
  qed
qed

theorem deadline_change_witness:
  "active (step formatDuration
      (PropsChanged \<lparr>startTimestamp = Some 1000, endTimestamp = Some 100000\<rparr> 3000)
      (session formatDuration \<lparr>startTimestamp = Some 1000, endTimestamp = None\<rparr> 2000 []))
     = [(2, CountdownTick)]
   \<and> timerValue (step formatDuration
      (PropsChanged \<lparr>startTimestamp = Some 1000, endTimestamp = Some 100000\<rparr> 3000)
      (session formatDuration \<lparr>startTimestamp = Some 1000, endTimestamp = None\<rparr> 2000 []))
     = ''01:37''
   \<and> scheduled (run formatDuration [Tick 1 4000]
      (step formatDuration
        (PropsChanged \<lparr>startTimestamp = Some 1000, endTimestamp = Some 100000\<rparr> 3000)
        (session formatDuration \<lparr>startTimestamp = Some 1000, endTimestamp = None\<rparr> 2000 []))) 1
     \<noteq> Some ElapsedTick"
proof -
  let ?w = "session formatDuration \<lparr>startTimestamp = Some 1000, endTimestamp = None\<rparr> 2000 []"
  have c: "endTimestamp (props ?w) = None" "countdownInterval ?w = None"
    "timerValue (setStateFromUTC formatDuration (Some 3000) (Some 100000) ?w) = ''01:37''"
    by code_simp+
  from deadline_change[OF refl _ _ refl, of
      "\<lparr>startTimestamp = Some 1000, endTimestamp = Some 100000\<rparr>" formatDuration
      "\<lparr>startTimestamp = Some 1000, endTimestamp = None\<rparr>" 2000 "[]" "[Tick 1 4000]" 3000 1] c
  show ?thesis by simp
qed

text \<open>
  C3 as stated fails for a change of deadline while the countdown loop runs: the loop of
  id \<open>2\<close> is scheduled before and after, the timer table is the same, and the published
  string stays \<^verbatim>\<open>01:37\<close>, where the remaining time to the new deadline formats as
  \<^verbatim>\<open>03:16\<close>.
\<close>

theorem deadline_change_running_countdown_counterexample:
  "scheduled (session formatDuration \<lparr>startTimestamp = Some 1000, endTimestamp = None\<rparr> 2000
      [PropsChanged \<lparr>startTimestamp = Some 1000, endTimestamp = Some 100000\<rparr> 3000]) 2
     = Some CountdownTick
   \<and> timers (session formatDuration \<lparr>startTimestamp = Some 1000, endTimestamp = None\<rparr> 2000
      [PropsChanged \<lparr>startTimestamp = Some 1000, endTimestamp = Some 100000\<rparr> 3000,
       PropsChanged \<lparr>startTimestamp = Some 1000, endTimestamp = Some 200000\<rparr> 4000])
     = timers (session formatDuration \<lparr>startTimestamp = Some 1000, endTimestamp = None\<rparr> 2000
      [PropsChanged \<lparr>startTimestamp = Some 1000, endTimestamp = Some 100000\<rparr> 3000])
   \<and> timerValue (session formatDuration \<lparr>startTimestamp = Some 1000, endTimestamp = None\<rparr> 2000
      [PropsChanged \<lparr>startTimestamp = Some 1000, endTimestamp = Some 100000\<rparr> 3000,
       PropsChanged \<lparr>startTimestamp = Some 1000, endTimestamp = Some 200000\<rparr> 4000])
     = ''01:37''
   \<and> formatDuration (200000 - 4000) = ''03:16''"
  by code_simp

subsection \<open>What a step dispatches\<close>

lemma tickShows_elapsedPhase: "elapsedPhase w \<Longrightarrow> \<not> tickShows fmt s e w"
  by (cases e) (simp_all add: scheduled_elapsedPhase)

lemma tickShows_countdownPhase:
  "countdownPhase a w \<Longrightarrow>
   tickShows fmt s e w =
     (case e of Tick h now \<Rightarrow> a \<and> h = 2 \<and> shownAt fmt now w = s | PropsChanged q now \<Rightarrow> False)"
  by (cases e) (auto simp: scheduled_countdownPhase)

declare tickShows.simps [simp del]

lemma step_dispatched:
  assumes "mounted w"
  shows "dispatched (step fmt e w) =
     dispatched w @ (if tickShows fmt ''00:30'' e w then [countdownNotice] else [])
       @ (if tickShows fmt ''00:01'' e w then [EndConference] else [])"
  using assms
proof (cases rule: mounted_cases)
  case 1
  then show ?thesis
    by (cases e) (simp_all add: step_elapsedPhase tickShows_elapsedPhase elapsedTick_def)
next
  case (2 a)
  show ?thesis
  proof (cases e)
    case (PropsChanged q now)
    with 2 show ?thesis by (simp add: step_countdownPhase tickShows_countdownPhase)
  next
    case (Tick h now)
    show ?thesis
    proof (cases "a \<and> h = 2")
      case True
      with 2 have c: "countdownPhase True w" by simp
      from True Tick 2 show ?thesis
        by (simp add: step_countdownPhase tickShows_countdownPhase countdownTick_eq[OF c] Let_def)
    next
      case False
      with Tick 2 show ?thesis
        by (auto simp: step_countdownPhase tickShows_countdownPhase)
    qed
  qed
qed

lemma step_textStyle:
  assumes "mounted w"
  shows "textStyle (step fmt e w) =
     (if tickShows fmt ''00:30'' e w then ColorRed else textStyle w)"
  using assms
proof (cases rule: mounted_cases)
  case 1
  then show ?thesis
    by (cases e) (simp_all add: step_elapsedPhase tickShows_elapsedPhase elapsedTick_def)
next
  case (2 a)
  show ?thesis
  proof (cases e)
    case (PropsChanged q now)
    with 2 show ?thesis by (simp add: step_countdownPhase tickShows_countdownPhase)
  next
    case (Tick h now)
    show ?thesis
    proof (cases "a \<and> h = 2")
      case True
      with 2 have c: "countdownPhase True w" by simp
      from True Tick 2 show ?thesis
        by (simp add: step_countdownPhase tickShows_countdownPhase countdownTick_eq[OF c] Let_def)
    next
      case False
      with Tick 2 show ?thesis
        by (auto simp: step_countdownPhase tickShows_countdownPhase)
    qed
  qed
qed

lemma countdownNotice_neq [simp]:
  "countdownNotice \<noteq> EndConference" "EndConference \<noteq> countdownNotice"
  by (simp_all add: countdownNotice_def)

lemma run_count_notice:
  "mounted w \<Longrightarrow>
   count_list (dispatched (run fmt es w)) countdownNotice =
     count_list (dispatched w) countdownNotice + countShown fmt ''00:30'' es w"
proof (induction es arbitrary: w)
  case Nil
  then show ?case by simp
next
  case (Cons e es)
  from Cons.IH[OF mounted_step[OF Cons.prems, of fmt e]]
  show ?case by (simp add: step_dispatched[OF Cons.prems])
qed

lemma run_count_end:
  "mounted w \<Longrightarrow>
   count_list (dispatched (run fmt es w)) EndConference =
     count_list (dispatched w) EndConference + countShown fmt ''00:01'' es w"
proof (induction es arbitrary: w)
  case Nil
  then show ?case by simp
next
  case (Cons e es)
  from Cons.IH[OF mounted_step[OF Cons.prems, of fmt e]]
  show ?case by (simp add: step_dispatched[OF Cons.prems])
qed

lemma run_dispatched_subset:
  "mounted w \<Longrightarrow> set (dispatched w) \<subseteq> {countdownNotice, EndConference} \<Longrightarrow>
   set (dispatched (run fmt es w)) \<subseteq> {countdownNotice, EndConference}"
proof (induction es arbitrary: w)
  case Nil
  then show ?case by simp
next
  case (Cons e es)
  have "set (dispatched (step fmt e w)) \<subseteq> {countdownNotice, EndConference}"
    using Cons.prems(2) by (auto simp: step_dispatched[OF Cons.prems(1)])
  from Cons.IH[OF mounted_step[OF Cons.prems(1), of fmt e] this]
  show ?case by simp
qed

lemma countShown_countdownPhase_False:
  "countdownPhase False w \<Longrightarrow> countShown fmt s es w = 0"
proof (induction es arbitrary: w)
  case Nil
  then show ?case by simp
next
  case (Cons e es)
  from step_countdownPhase_False[OF Cons.prems, of fmt e]
  have "countdownPhase False (step fmt e w)" by simp
  from Cons.IH[OF this] Cons.prems show ?case
    by (simp add: tickShows_countdownPhase split: Event.splits)
qed

text \<open>A tick of the countdown loop that compares \<^verbatim>\<open>00:01\<close> cancels the loop.\<close>

lemma tickShows_end:
  assumes "mounted w" and "tickShows fmt ''00:01'' e w"
  shows "countdownPhase False (step fmt e w) \<and> timerValue (step fmt e w) = fmt 0"
  using assms(1)
proof (cases rule: mounted_cases)
  case 1
  with assms(2) show ?thesis by (simp add: tickShows_elapsedPhase)
next
  case (2 a)
  with assms(2) obtain h now where e: "e = Tick h now" "a" "h = 2" "shownAt fmt now w = ''00:01''"
    by (cases e) (simp_all add: tickShows_countdownPhase)
  with 2 have c: "countdownPhase True w" by simp
  from countdownTick_phase[OF c, of fmt now] e c show ?thesis
    by (simp add: step_countdownPhase countdownTick_eq[OF c] Let_def)
qed

lemma countShown_end_le:
  "mounted w \<Longrightarrow> countShown fmt ''00:01'' es w \<le> 1"
proof (induction es arbitrary: w)
  case Nil
  then show ?case by simp
next
  case (Cons e es)
  show ?case
  proof (cases "tickShows fmt ''00:01'' e w")
    case True
    from tickShows_end[OF Cons.prems True]
    have "countShown fmt ''00:01'' es (step fmt e w) = 0"
      by (simp add: countShown_countdownPhase_False)
    with True show ?thesis by simp
  next
    case False
    with Cons.IH[OF mounted_step[OF Cons.prems, of fmt e]] show ?thesis by simp
  qed
qed

lemma dispatched_session_Nil: "dispatched (session fmt p t0 []) = []"
  by (simp add: session_def componentDidMount_eq) (simp add: constructor_def)

lemma session_run: "session fmt p t0 es = run fmt es (session fmt p t0 [])"
  by (simp add: session_def)

lemma tickShows_unique:
  "tickShows fmt s e w \<Longrightarrow> tickShows fmt s' e w \<Longrightarrow> s = s'"
  by (cases e) (simp_all add: tickShows.simps)

subsection \<open>Ending the conference\<close>

text \<open>
  C6, as amended.  In the life of a mounted instance the number of \<^verbatim>\<open>endConference\<close>
  actions dispatched is the number of ticks of the scheduled countdown loop at which the
  published string, after the tick's update step, is \<^verbatim>\<open>00:01\<close>; that number is at
  most one.  Such a tick dispatches the action; from then on, whatever follows, the
  published string is that of duration \<open>0\<close>, no interval is scheduled and nothing more
  is dispatched.  No other event dispatches the action.
\<close>

theorem terminate_once:
  assumes "w = session fmt p t0 es"
  shows "count_list (dispatched w) EndConference
        = countShown fmt ''00:01'' es (session fmt p t0 [])
    \<and> countShown fmt ''00:01'' es (session fmt p t0 []) \<le> 1
    \<and> (tickShows fmt ''00:01'' e w \<longrightarrow>
          dispatched (step fmt e w) = dispatched w @ [EndConference]
          \<and> timerValue (run fmt es' (step fmt e w)) = fmt 0
          \<and> active (run fmt es' (step fmt e w)) = []
          \<and> dispatched (run fmt es' (step fmt e w)) = dispatched w @ [EndConference])
    \<and> (\<not> tickShows fmt ''00:01'' e w \<longrightarrow>
          count_list (dispatched (step fmt e w)) EndConference
            = count_list (dispatched w) EndConference)"
proof -
  let ?w0 = "session fmt p t0 []"
  have m0: "mounted ?w0" by (rule mounted_session)
  have m: "mounted w" using assms by (simp add: mounted_session)
  have w: "w = run fmt es ?w0" unfolding assms by (rule session_run)
  have 1: "count_list (dispatched w) EndConference = countShown fmt ''00:01'' es ?w0"
    unfolding w using run_count_end[OF m0, of fmt es] by (simp add: dispatched_session_Nil)
  have 2: "countShown fmt ''00:01'' es ?w0 \<le> 1" by (rule countShown_end_le[OF m0])
  have 3: "tickShows fmt ''00:01'' e w \<longrightarrow>
      dispatched (step fmt e w) = dispatched w @ [EndConference]
      \<and> timerValue (run fmt es' (step fmt e w)) = fmt 0
      \<and> active (run fmt es' (step fmt e w)) = []
      \<and> dispatched (run fmt es' (step fmt e w)) = dispatched w @ [EndConference]"
  proof
    assume t: "tickShows fmt ''00:01'' e w"
    have n: "\<not> tickShows fmt ''00:30'' e w"
      using tickShows_unique[OF t, of "''00:30''"] by auto
    have d: "dispatched (step fmt e w) = dispatched w @ [EndConference]"
      using t n by (simp add: step_dispatched[OF m])
    from tickShows_end[OF m t]
    have c: "countdownPhase False (step fmt e w)" and v: "timerValue (step fmt e w) = fmt 0"
      by simp_all
    from run_countdownPhase_False[OF c, of fmt es']
    have r: "countdownPhase False (run fmt es' (step fmt e w))"
      "timerValue (run fmt es' (step fmt e w)) = timerValue (step fmt e w)"
      "dispatched (run fmt es' (step fmt e w)) = dispatched (step fmt e w)"
      by simp_all
    from active_countdownPhase[OF r(1)] r(2,3) d v
    show "dispatched (step fmt e w) = dispatched w @ [EndConference]
      \<and> timerValue (run fmt es' (step fmt e w)) = fmt 0
      \<and> active (run fmt es' (step fmt e w)) = []
      \<and> dispatched (run fmt es' (step fmt e w)) = dispatched w @ [EndConference]"
      by simp
  qed
  have 4: "\<not> tickShows fmt ''00:01'' e w \<longrightarrow>
      count_list (dispatched (step fmt e w)) EndConference
        = count_list (dispatched w) EndConference"
    by (simp add: step_dispatched[OF m])
  show ?thesis by (intro conjI) (rule 1, rule 2, rule 3, rule 4)
qed

theorem terminate_once_witness:
  "dispatched (session formatDuration \<lparr>startTimestamp = Some 1000, endTimestamp = None\<rparr> 2000
      [PropsChanged \<lparr>startTimestamp = Some 1000, endTimestamp = Some 100000\<rparr> 69000,
       Tick 2 98000, Tick 2 99000]) = [EndConference]
   \<and> timerValue (run formatDuration [Tick 2 100000]
      (session formatDuration \<lparr>startTimestamp = Some 1000, endTimestamp = None\<rparr> 2000
        [PropsChanged \<lparr>startTimestamp = Some 1000, endTimestamp = Some 100000\<rparr> 69000,
         Tick 2 98000, Tick 2 99000])) = ''00:00''
   \<and> active (run formatDuration [Tick 2 100000]
      (session formatDuration \<lparr>startTimestamp = Some 1000, endTimestamp = None\<rparr> 2000
        [PropsChanged \<lparr>startTimestamp = Some 1000, endTimestamp = Some 100000\<rparr> 69000,
         Tick 2 98000, Tick 2 99000])) = []
   \<and> count_list (dispatched
      (session formatDuration \<lparr>startTimestamp = Some 1000, endTimestamp = None\<rparr> 2000
        [PropsChanged \<lparr>startTimestamp = Some 1000, endTimestamp = Some 100000\<rparr> 69000,
         Tick 2 98000, Tick 2 99000, Tick 2 100000])) EndConference = 1"
proof -
  let ?p = "\<lparr>startTimestamp = Some 1000, endTimestamp = None\<rparr>"
  let ?q = "\<lparr>startTimestamp = Some 1000, endTimestamp = Some 100000\<rparr>"
  let ?w = "session formatDuration ?p 2000 [PropsChanged ?q 69000, Tick 2 98000]"
  have s: "session formatDuration ?p 2000 [PropsChanged ?q 69000, Tick 2 98000, Tick 2 99000]
      = step formatDuration (Tick 2 99000) ?w"
    by (simp add: session_def run_append[of _ "[_, _]" "[_]", simplified])
  have t: "tickShows formatDuration ''00:01'' (Tick 2 99000) ?w" by code_simp
  have d: "dispatched ?w = []" "formatDuration 0 = ''00:00''" by code_simp+
  have c: "countShown formatDuration ''00:01''
      [PropsChanged ?q 69000, Tick 2 98000, Tick 2 99000, Tick 2 100000]
      (session formatDuration ?p 2000 []) = 1"
    by code_simp
  from terminate_once[OF refl, of formatDuration ?p 2000
      "[PropsChanged ?q 69000, Tick 2 98000]" "Tick 2 99000" "[Tick 2 100000]"] t d s
    terminate_once[OF refl, of formatDuration ?p 2000
      "[PropsChanged ?q 69000, Tick 2 98000, Tick 2 99000, Tick 2 100000]"] c
  show ?thesis by simp
qed

text \<open>
  C6 as stated fails when the compared string is a stale one.  The elapsed loop has
  published \<^verbatim>\<open>00:01\<close>; the deadline set then lies in the past, so neither the start of
  the countdown nor its first tick formats a remaining time (the update step changes
  nothing); the tick still finds \<^verbatim>\<open>00:01\<close> and dispatches \<^verbatim>\<open>endConference\<close>.
\<close>

theorem terminate_on_stale_value_counterexample:
  "timerValue (session formatDuration \<lparr>startTimestamp = Some 1000000, endTimestamp = None\<rparr> 1001000
      [PropsChanged \<lparr>startTimestamp = Some 1000000, endTimestamp = Some 500000\<rparr> 1001500])
     = ''00:01''
   \<and> setStateFromUTC formatDuration (Some 1002500) (Some 500000)
      (session formatDuration \<lparr>startTimestamp = Some 1000000, endTimestamp = None\<rparr> 1001000
        [PropsChanged \<lparr>startTimestamp = Some 1000000, endTimestamp = Some 500000\<rparr> 1001500])
     = session formatDuration \<lparr>startTimestamp = Some 1000000, endTimestamp = None\<rparr> 1001000
        [PropsChanged \<lparr>startTimestamp = Some 1000000, endTimestamp = Some 500000\<rparr> 1001500]
   \<and> dispatched (session formatDuration \<lparr>startTimestamp = Some 1000000, endTimestamp = None\<rparr> 1001000
      [PropsChanged \<lparr>startTimestamp = Some 1000000, endTimestamp = Some 500000\<rparr> 1001500,
       Tick 2 1002500])
     = [EndConference]"
  by code_simp

subsection \<open>The warning\<close>

text \<open>
  C7, as amended.  In the life of a mounted instance the number of warning notifications
  dispatched is the number of ticks of the scheduled countdown loop at which the published
  string, after the tick's update step, is \<^verbatim>\<open>00:30\<close>: none when there is no such tick,
  one per such tick otherwise.  Such a tick dispatches the notification with period
  \<^verbatim>\<open>30\<close> and period type \<^verbatim>\<open>seconds\<close> and sets the alert style; any other event
  dispatches no notification and leaves the style as it is.
\<close>

theorem notice_at_matching_ticks:
  assumes "w = session fmt p t0 es"
  shows "count_list (dispatched w) countdownNotice
        = countShown fmt ''00:30'' es (session fmt p t0 [])
    \<and> set (dispatched w) \<subseteq> {countdownNotice, EndConference}
    \<and> (tickShows fmt ''00:30'' e w \<longrightarrow>
          dispatched (step fmt e w) = dispatched w @ [countdownNotice]
          \<and> textStyle (step fmt e w) = ColorRed)
    \<and> (\<not> tickShows fmt ''00:30'' e w \<longrightarrow>
          count_list (dispatched (step fmt e w)) countdownNotice
            = count_list (dispatched w) countdownNotice
          \<and> textStyle (step fmt e w) = textStyle w)"
proof -
  let ?w0 = "session fmt p t0 []"
  have m0: "mounted ?w0" by (rule mounted_session)
  have m: "mounted w" using assms by (simp add: mounted_session)
  have w: "w = run fmt es ?w0" unfolding assms by (rule session_run)
  have 1: "count_list (dispatched w) countdownNotice = countShown fmt ''00:30'' es ?w0"
    unfolding w using run_count_notice[OF m0, of fmt es] by (simp add: dispatched_session_Nil)
  have 2: "set (dispatched w) \<subseteq> {countdownNotice, EndConference}"
    unfolding w by (rule run_dispatched_subset[OF m0]) (simp add: dispatched_session_Nil)
  have 3: "tickShows fmt ''00:30'' e w \<longrightarrow>
      dispatched (step fmt e w) = dispatched w @ [countdownNotice]
      \<and> textStyle (step fmt e w) = ColorRed"
  proof
    assume t: "tickShows fmt ''00:30'' e w"
    have "\<not> tickShows fmt ''00:01'' e w"
      using tickShows_unique[OF t, of "''00:01''"] by auto
    with t show "dispatched (step fmt e w) = dispatched w @ [countdownNotice]
      \<and> textStyle (step fmt e w) = ColorRed"
      by (simp add: step_dispatched[OF m] step_textStyle[OF m])
  qed
  have 4: "\<not> tickShows fmt ''00:30'' e w \<longrightarrow>
      count_list (dispatched (step fmt e w)) countdownNotice
        = count_list (dispatched w) countdownNotice
      \<and> textStyle (step fmt e w) = textStyle w"
    by (simp add: step_dispatched[OF m] step_textStyle[OF m])
  show ?thesis by (intro conjI) (rule 1, rule 2, rule 3, rule 4)
qed

theorem notice_at_matching_ticks_witness:
  "count_list (dispatched
      (session formatDuration \<lparr>startTimestamp = Some 1000, endTimestamp = None\<rparr> 2000
        [PropsChanged \<lparr>startTimestamp = Some 1000, endTimestamp = Some 100000\<rparr> 69000,
         Tick 2 70000, Tick 2 71000])) countdownNotice = 1
   \<and> dispatched (step formatDuration (Tick 2 70000)
      (session formatDuration \<lparr>startTimestamp = Some 1000, endTimestamp = None\<rparr> 2000
        [PropsChanged \<lparr>startTimestamp = Some 1000, endTimestamp = Some 100000\<rparr> 69000]))
     = [countdownNotice]
   \<and> textStyle (step formatDuration (Tick 2 70000)
      (session formatDuration \<lparr>startTimestamp = Some 1000, endTimestamp = None\<rparr> 2000
        [PropsChanged \<lparr>startTimestamp = Some 1000, endTimestamp = Some 100000\<rparr> 69000]))
     = ColorRed"
proof -
  let ?p = "\<lparr>startTimestamp = Some 1000, endTimestamp = None\<rparr>"
  let ?q = "\<lparr>startTimestamp = Some 1000, endTimestamp = Some 100000\<rparr>"
  let ?w = "session formatDuration ?p 2000 [PropsChanged ?q 69000]"
  have t: "tickShows formatDuration ''00:30'' (Tick 2 70000) ?w" by code_simp
  have d: "dispatched ?w = []" by code_simp
  have c: "countShown formatDuration ''00:30''
      [PropsChanged ?q 69000, Tick 2 70000, Tick 2 71000]
      (session formatDuration ?p 2000 []) = 1"
    by code_simp
  from notice_at_matching_ticks[OF refl, of formatDuration ?p 2000
      "[PropsChanged ?q 69000]" "Tick 2 70000"] t d
    notice_at_matching_ticks[OF refl, of formatDuration ?p 2000
      "[PropsChanged ?q 69000, Tick 2 70000, Tick 2 71000]"] c
  show ?thesis by simp
qed

text \<open>
  C7 as stated fails: one countdown can dispatch the warning more than once.  The tick
  at 30 seconds before the deadline publishes \<^verbatim>\<open>00:30\<close> and warns; the next tick comes
  after the deadline (the timers of a suspended page or device do not fire), its update
  is skipped, it finds \<^verbatim>\<open>00:30\<close> again and warns again.
\<close>

theorem notice_twice_counterexample:
  "dispatched (session formatDuration \<lparr>startTimestamp = Some 1000, endTimestamp = None\<rparr> 2000
      [PropsChanged \<lparr>startTimestamp = Some 1000, endTimestamp = Some 100000\<rparr> 60000,
       Tick 2 70000, Tick 2 101000])
     = [countdownNotice, countdownNotice]"
  by code_simp

subsection \<open>Negative differences\<close>

lemma timerValue_setStateFromUTC:
  "timerValue (setStateFromUTC fmt r c w) = timerValue w
   \<or> (\<exists>x\<ge>0. timerValue (setStateFromUTC fmt r c w) = fmt x)"
proof (cases "truthy r \<and> truthy c \<and> the r \<le> the c")
  case True
  then have "timerValue (setStateFromUTC fmt r c w) = fmt (the c - the r)" "0 \<le> the c - the r"
    by (simp_all add: setStateFromUTC_eq)
  then show ?thesis by blast
next
  case False
  then show ?thesis by (auto simp: setStateFromUTC_eq)
qed

lemma timerValue_step:
  assumes "mounted w"
  shows "timerValue (step fmt e w) = timerValue w
    \<or> (\<exists>x\<ge>0. timerValue (step fmt e w) = fmt x)"
  using assms
proof (cases rule: mounted_cases)
  case 1
  show ?thesis
  proof (cases e)
    case (Tick h now)
    with 1 timerValue_setStateFromUTC[of fmt "startTimestamp (props w)" "Some now" w]
    show ?thesis by (simp add: step_elapsedPhase elapsedTick_def)
  next
    case (PropsChanged q now)
    have "timerValue (setStateFromUTC fmt (Some now) (endTimestamp q) (w\<lparr>props := q\<rparr>))
        = timerValue (setStateFromUTC fmt (Some now) (endTimestamp q) w)"
      by (simp add: setStateFromUTC_eq)
    with 1 PropsChanged timerValue_setStateFromUTC[of fmt "Some now" "endTimestamp q" w]
    show ?thesis by (simp add: step_elapsedPhase)
  qed
next
  case (2 a)
  show ?thesis
  proof (cases e)
    case (PropsChanged q now)
    with 2 show ?thesis by (simp add: step_countdownPhase)
  next
    case (Tick h now)
    show ?thesis
    proof (cases "a \<and> h = 2")
      case False
      with 2 Tick show ?thesis by (auto simp: step_countdownPhase)
    next
      case True
      with 2 have c: "countdownPhase True w" by simp
      have z: "\<exists>x\<ge>0. fmt 0 = fmt (x::int)" by (rule exI[of _ 0]) simp
      from True Tick 2 z timerValue_setStateFromUTC[of fmt "Some now" "endTimestamp (props w)" w]
      show ?thesis
        by (simp add: step_countdownPhase countdownTick_eq[OF c] Let_def)
    qed
  qed
qed

lemma timerValue_run:
  "mounted w \<Longrightarrow> \<exists>x\<ge>0. timerValue w = fmt x \<Longrightarrow> \<exists>x\<ge>0. timerValue (run fmt es w) = fmt x"
proof (induction es arbitrary: w)
  case Nil
  then show ?case by simp
next
  case (Cons e es)
  from timerValue_step[OF Cons.prems(1), of fmt e] Cons.prems(2)
  have "\<exists>x\<ge>0. timerValue (step fmt e w) = fmt x" by auto
  from Cons.IH[OF mounted_step[OF Cons.prems(1), of fmt e] this] show ?case by simp
qed

lemma timerValue_session: "\<exists>x\<ge>0. timerValue (session fmt p t0 es) = fmt x"
proof -
  have "timerValue (session fmt p t0 []) = timerValue (constructor fmt p)
      \<or> (\<exists>x\<ge>0. timerValue (session fmt p t0 []) = fmt x)"
    using timerValue_setStateFromUTC[of fmt "startTimestamp p" "Some t0" "constructor fmt p"]
    by (simp add: session_def componentDidMount_eq)
  moreover have "timerValue (constructor fmt p) = fmt 0" by (simp add: constructor_def)
  ultimately have "\<exists>x\<ge>0. timerValue (session fmt p t0 []) = fmt x"
    by (metis order_refl)
  from timerValue_run[OF mounted_session this, of es] show ?thesis
    unfolding session_run[of fmt p t0 es] .
qed

text \<open>
  C8, as amended.  When the difference is negative the update step changes nothing, for
  any state.  A tick of the elapsed loop with a negative difference changes nothing.  A
  tick of the countdown loop with a negative difference changes nothing when the string
  already published is neither \<^verbatim>\<open>00:30\<close> nor \<^verbatim>\<open>00:01\<close>.  And at every moment of a
  mounted instance the published string is the formatting of a duration that is not
  negative.
\<close>

theorem negative_delta_tick:
  assumes "w = session fmt p t0 es"
  shows "(ref = Some a \<and> cur = Some b \<and> b - a < 0 \<longrightarrow> setStateFromUTC fmt ref cur v = v)
    \<and> (scheduled v h = Some ElapsedTick \<and> startTimestamp (props v) = Some s \<and> now - s < 0
        \<longrightarrow> step fmt (Tick h now) v = v)
    \<and> (scheduled v h = Some CountdownTick \<and> endTimestamp (props v) = Some d \<and> d - now < 0
        \<and> timerValue v \<noteq> ''00:30'' \<and> timerValue v \<noteq> ''00:01''
        \<longrightarrow> step fmt (Tick h now) v = v)
    \<and> (\<exists>x\<ge>0. timerValue w = fmt x)"
proof -
  have 1: "ref = Some a \<and> cur = Some b \<and> b - a < 0 \<longrightarrow> setStateFromUTC fmt ref cur v = v"
    by (simp add: setStateFromUTC_eq)
  have 2: "scheduled v h = Some ElapsedTick \<and> startTimestamp (props v) = Some s \<and> now - s < 0
      \<longrightarrow> step fmt (Tick h now) v = v"
    by (simp add: step.simps elapsedTick_def setStateFromUTC_eq)
  have 3: "scheduled v h = Some CountdownTick \<and> endTimestamp (props v) = Some d \<and> d - now < 0
      \<and> timerValue v \<noteq> ''00:30'' \<and> timerValue v \<noteq> ''00:01''
      \<longrightarrow> step fmt (Tick h now) v = v"
    by (simp add: step.simps countdownTick_def setStateFromUTC_eq)
  have 4: "\<exists>x\<ge>0. timerValue w = fmt x"
    unfolding assms by (rule timerValue_session)
  show ?thesis by (intro conjI) (rule 1, rule 2, rule 3, rule 4)
qed

theorem negative_delta_tick_witness:
  "step formatDuration (Tick 1 500)
      (session formatDuration \<lparr>startTimestamp = Some 1000, endTimestamp = None\<rparr> 2000 [])
     = session formatDuration \<lparr>startTimestamp = Some 1000, endTimestamp = None\<rparr> 2000 []
   \<and> step formatDuration (Tick 2 101000)
      (session formatDuration \<lparr>startTimestamp = Some 1000, endTimestamp = None\<rparr> 2000
        [PropsChanged \<lparr>startTimestamp = Some 1000, endTimestamp = Some 100000\<rparr> 60000])
     = session formatDuration \<lparr>startTimestamp = Some 1000, endTimestamp = None\<rparr> 2000
        [PropsChanged \<lparr>startTimestamp = Some 1000, endTimestamp = Some 100000\<rparr> 60000]
   \<and> timerValue (session formatDuration \<lparr>startTimestamp = Some 1000, endTimestamp = None\<rparr> 2000
        [PropsChanged \<lparr>startTimestamp = Some 1000, endTimestamp = Some 100000\<rparr> 60000])
     = ''00:40''"
proof -
  let ?p = "\<lparr>startTimestamp = Some 1000, endTimestamp = None\<rparr>"
  let ?q = "\<lparr>startTimestamp = Some 1000, endTimestamp = Some 100000\<rparr>"
  let ?v = "session formatDuration ?p 2000 []"
  let ?u = "session formatDuration ?p 2000 [PropsChanged ?q 60000]"
  have v: "scheduled ?v 1 = Some ElapsedTick" "startTimestamp (props ?v) = Some 1000"
    by code_simp+
  have u: "scheduled ?u 2 = Some CountdownTick" "endTimestamp (props ?u) = Some 100000"
    "timerValue ?u = ''00:40''"
    by code_simp+
  from negative_delta_tick[OF refl, where fmt = formatDuration and v = "?v" and h = 1
        and s = 1000 and now = 500] v
    negative_delta_tick[OF refl, where fmt = formatDuration and v = "?u" and h = 2
        and d = 100000 and now = 101000] u
  show ?thesis by simp
qed

text \<open>
  C8 as stated fails for a tick of the countdown loop that finds a stale \<^verbatim>\<open>00:01\<close> or
  \<^verbatim>\<open>00:30\<close>.  A deadline one second ahead publishes \<^verbatim>\<open>00:01\<close> at the change; the first
  tick, one millisecond after the deadline, has a negative difference and still replaces
  the published string by \<^verbatim>\<open>00:00\<close>.  A deadline thirty seconds ahead publishes
  \<^verbatim>\<open>00:30\<close> in the empty style; a tick after the deadline sets the alert style.
\<close>

theorem negative_delta_countdown_tick_counterexample:
  "timerValue (session formatDuration \<lparr>startTimestamp = Some 1000, endTimestamp = None\<rparr> 2000
      [PropsChanged \<lparr>startTimestamp = Some 1000, endTimestamp = Some 61000\<rparr> 60000]) = ''00:01''
   \<and> timerValue (session formatDuration \<lparr>startTimestamp = Some 1000, endTimestamp = None\<rparr> 2000
      [PropsChanged \<lparr>startTimestamp = Some 1000, endTimestamp = Some 61000\<rparr> 60000,
       Tick 2 61001]) = ''00:00''
   \<and> textStyle (session formatDuration \<lparr>startTimestamp = Some 1000, endTimestamp = None\<rparr> 2000
      [PropsChanged \<lparr>startTimestamp = Some 1000, endTimestamp = Some 90000\<rparr> 60000]) = EmptyStyle
   \<and> textStyle (session formatDuration \<lparr>startTimestamp = Some 1000, endTimestamp = None\<rparr> 2000
      [PropsChanged \<lparr>startTimestamp = Some 1000, endTimestamp = Some 90000\<rparr> 60000,
       Tick 2 90001]) = ColorRed"
  by code_simp

end
